theory Spec2Isabelle
  imports Main
begin

section \<open>JavaScript values reaching the entry points\<close>

text \<open>
  The tag name and the metadata document are checked dynamically by the code
  (\<^verbatim>\<open>!tagName\<close>, \<^verbatim>\<open>typeof tagName\<close>, \<^verbatim>\<open>Array.isArray\<close>), so both are modelled as
  untyped values. Arrays hold elements of a type parameter: the only array whose
  elements the code reads is the document's \<^verbatim>\<open>components\<close>, whose elements have the
  declared shape \<^verbatim>\<open>StencilJsonDocsComponent\<close>. Numbers are integers, with \<open>JNaN\<close> for
  the one further falsy number; the code only tests numbers for truthiness and
  \<^verbatim>\<open>typeof\<close>.
\<close>

datatype 'a jsval =
    JUndefined
  | JNull
  | JBool bool
  | JNum int
  | JNaN
  | JStr string
  | JArr "'a list"
  | JObj "(string \<times> 'a jsval) list"

text \<open>What the code can raise: its two \<^verbatim>\<open>throw new Error(...)\<close> sites, told apart by
  their message, and the runtime's \<^verbatim>\<open>TypeError\<close> on a property read of
  \<^verbatim>\<open>undefined\<close> or a call of a non-function.\<close>

datatype error =
    InvalidTagNameError
  | InvalidDocumentError
  | TypeError

text \<open>The result of \<^verbatim>\<open>x && e\<close> and of \<^verbatim>\<open>Array.prototype.find\<close>: \<^verbatim>\<open>null\<close>,
  \<^verbatim>\<open>undefined\<close>, or a value.\<close>

datatype 'a nullable = Null | Undefined | Defined 'a

text \<open>\<^verbatim>\<open>ToBoolean\<close>: what \<^verbatim>\<open>!x\<close>, \<^verbatim>\<open>x && y\<close> and \<^verbatim>\<open>x || y\<close> test.\<close>

fun truthy :: "'a jsval \<Rightarrow> bool" where
  "truthy JUndefined = False"
| "truthy JNull = False"
| "truthy (JBool b) = b"
| "truthy (JNum n) = (n \<noteq> 0)"
| "truthy JNaN = False"
| "truthy (JStr s) = (s \<noteq> [])"
| "truthy (JArr xs) = True"
| "truthy (JObj fs) = True"

fun typeof :: "'a jsval \<Rightarrow> string" where
  "typeof JUndefined = ''undefined''"
| "typeof JNull = ''object''"
| "typeof (JBool b) = ''boolean''"
| "typeof (JNum n) = ''number''"
| "typeof JNaN = ''number''"
| "typeof (JStr s) = ''string''"
| "typeof (JArr xs) = ''object''"
| "typeof (JObj fs) = ''object''"

fun isArray :: "'a jsval \<Rightarrow> bool" where
  "isArray (JArr xs) = True"
| "isArray v = False"

text \<open>The property read \<^verbatim>\<open>v.components\<close>: a \<^verbatim>\<open>TypeError\<close> on \<^verbatim>\<open>undefined\<close> and
  \<^verbatim>\<open>null\<close>, the field's value on an object that has it, \<^verbatim>\<open>undefined\<close> on every other
  value (primitives and arrays have no property of that name).\<close>

fun getComponents :: "'a jsval \<Rightarrow> error + 'a jsval" where
  "getComponents JUndefined = Inl TypeError"
| "getComponents JNull = Inl TypeError"
| "getComponents (JObj fs) =
     (case map_of fs ''components'' of None \<Rightarrow> Inr JUndefined | Some v \<Rightarrow> Inr v)"
| "getComponents v = Inr JUndefined"

section \<open>Strings: case mapping and the two key casings\<close>

text \<open>Strings are ASCII; a character outside the ASCII letters is left unchanged by
  the case mappings.\<close>

definition lowerChars :: string where
  "lowerChars = ''abcdefghijklmnopqrstuvwxyz''"

definition upperChars :: string where
  "upperChars = ''ABCDEFGHIJKLMNOPQRSTUVWXYZ''"

definition digitChars :: string where
  "digitChars = ''0123456789''"

definition isLower :: "char \<Rightarrow> bool" where
  "isLower c = (c \<in> set lowerChars)"

definition isUpper :: "char \<Rightarrow> bool" where
  "isUpper c = (c \<in> set upperChars)"

definition isDigit :: "char \<Rightarrow> bool" where
  "isDigit c = (c \<in> set digitChars)"

definition isBreak :: "char \<Rightarrow> bool" where
  "isBreak c = (\<not> isLower c \<and> \<not> isUpper c \<and> \<not> isDigit c)"

definition toUpperChar :: "char \<Rightarrow> char" where
  "toUpperChar c = (case map_of (zip lowerChars upperChars) c of Some u \<Rightarrow> u | None \<Rightarrow> c)"

definition toLowerChar :: "char \<Rightarrow> char" where
  "toLowerChar c = (case map_of (zip upperChars lowerChars) c of Some l \<Rightarrow> l | None \<Rightarrow> c)"

definition toUpperCase :: "string \<Rightarrow> string" where
  "toUpperCase s = map toUpperChar s"

definition toLowerCase :: "string \<Rightarrow> string" where
  "toLowerCase s = map toLowerChar s"

text \<open>
  Modelled from the spec: \<^verbatim>\<open>camelCase\<close> and \<^verbatim>\<open>kebabCase\<close> are imported from lodash,
  which is not part of the source tree. The spec asks for hyphen-separated lowercase
  words and lower-camel-case words under the standard word-boundary tokenization; the
  definitions below follow lodash 4 on ASCII input. There a string is split by
  \<^verbatim>\<open>asciiWords\<close> (maximal runs of letters and digits) unless \<^verbatim>\<open>hasUnicodeWord\<close> finds a
  case or letter/digit boundary or a character other than a letter, a digit or a space,
  and by \<^verbatim>\<open>unicodeWords\<close> otherwise, whose pattern tries at each position, in this order,

  \<^enum> \<^verbatim>\<open>Upper? Lower+ (?= Break | Upper | $)\<close>
  \<^enum> \<^verbatim>\<open>Upper+ (?= Break | Upper Lower | $)\<close>
  \<^enum> \<^verbatim>\<open>Upper? Lower+\<close>
  \<^enum> \<^verbatim>\<open>Upper+\<close>
  \<^enum> \<^verbatim>\<open>\d*(?:1ST|2ND|3RD|(?![123])\dTH)(?=\b|[a-z_])\<close>
  \<^enum> \<^verbatim>\<open>\d*(?:1st|2nd|3rd|(?![123])\dth)(?=\b|[A-Z_])\<close>
  \<^enum> \<^verbatim>\<open>\d+\<close>

  and skips a character where none matches. Apostrophes are removed before splitting,
  so the optional contraction suffixes of the pattern never match. Each alternative is
  written as the length of its match at the head of the string, \<open>0\<close> for no match.
  A character outside ASCII counts as a break.
\<close>

definition span :: "(char \<Rightarrow> bool) \<Rightarrow> string \<Rightarrow> nat" where
  "span p s = length (takeWhile p s)"

definition startsWith :: "(char \<Rightarrow> bool) \<Rightarrow> string \<Rightarrow> bool" where
  "startsWith p s = (case s of [] \<Rightarrow> False | c # _ \<Rightarrow> p c)"

text \<open>\<^verbatim>\<open>Upper? Lower+\<close>: greedy, and without the capital no match either, since the
  string then starts with a capital.\<close>

definition lowerWord :: "string \<Rightarrow> nat" where
  "lowerWord s =
     (let u = (if startsWith isUpper s then 1 else 0 :: nat);
          l = span isLower (drop u s)
      in if l = 0 then 0 else u + l)"

text \<open>Alternative 1: a shorter run of small letters is followed by a small letter, so
  only the longest run can meet the lookahead.\<close>

definition lowerWordBounded :: "string \<Rightarrow> nat" where
  "lowerWordBounded s =
     (let n = lowerWord s; r = drop n s
      in if 0 < n \<and> (r = [] \<or> startsWith isBreak r \<or> startsWith isUpper r) then n else 0)"

text \<open>Alternative 2: the whole run of capitals when a break or the end follows; all but
  the last capital when a small letter follows; nothing when a digit follows.\<close>

definition upperWordBounded :: "string \<Rightarrow> nat" where
  "upperWordBounded s =
     (let k = span isUpper s; r = drop k s
      in if k = 0 then 0
         else if r = [] \<or> startsWith isBreak r then k
         else if 2 \<le> k \<and> startsWith isLower r then k - 1
         else 0)"

text \<open>Alternatives 5 and 6: the digits, the last of which carries the ordinal suffix;
  \<open>follow\<close> is the lookahead on the character after the suffix.\<close>

definition ordinal ::
  "string \<Rightarrow> string \<Rightarrow> string \<Rightarrow> string \<Rightarrow> (char \<Rightarrow> bool) \<Rightarrow> string \<Rightarrow> nat" where
  "ordinal st nd rd th follow s =
     (let m = span isDigit s;
          d = take 1 (drop (m - 1) s);
          suf = take 2 (drop m s);
          r = drop (m + 2) s
      in if 1 \<le> m
            \<and> (d = ''1'' \<and> suf = st \<or> d = ''2'' \<and> suf = nd \<or> d = ''3'' \<and> suf = rd
               \<or> d \<noteq> ''1'' \<and> d \<noteq> ''2'' \<and> d \<noteq> ''3'' \<and> suf = th)
            \<and> (r = [] \<or> startsWith follow r)
         then m + 2 else 0)"

definition ordUpper :: "string \<Rightarrow> nat" where
  "ordUpper s = ordinal ''ST'' ''ND'' ''RD'' ''TH'' (\<lambda>c. \<not> isUpper c \<and> \<not> isDigit c) s"

definition ordLower :: "string \<Rightarrow> nat" where
  "ordLower s = ordinal ''st'' ''nd'' ''rd'' ''th'' (\<lambda>c. \<not> isLower c \<and> \<not> isDigit c) s"

definition wordLength :: "string \<Rightarrow> nat" where
  "wordLength s =
     (if 0 < lowerWordBounded s then lowerWordBounded s
      else if 0 < upperWordBounded s then upperWordBounded s
      else if 0 < lowerWord s then lowerWord s
      else if 0 < span isUpper s then span isUpper s
      else if 0 < ordUpper s then ordUpper s
      else if 0 < ordLower s then ordLower s
      else span isDigit s)"

fun unicodeWords :: "string \<Rightarrow> string list" where
  "unicodeWords [] = []"
| "unicodeWords (c # cs) =
     (let n = wordLength (c # cs)
      in if n = 0 then unicodeWords cs
         else take n (c # cs) # unicodeWords (drop (n - 1) cs))"

fun asciiWords :: "string \<Rightarrow> string list" where
  "asciiWords [] = []"
| "asciiWords (c # cs) =
     (let n = span (\<lambda>x. \<not> isBreak x) (c # cs)
      in if n = 0 then asciiWords cs
         else take n (c # cs) # asciiWords (drop (n - 1) cs))"

text \<open>\<^verbatim>\<open>/[a-z][A-Z]|[A-Z]{2}[a-z]|[0-9][a-zA-Z]|[a-zA-Z][0-9]|[^a-zA-Z0-9 ]/\<close>\<close>

fun hasUnicodeWord :: "string \<Rightarrow> bool" where
  "hasUnicodeWord [] = False"
| "hasUnicodeWord (c # cs) =
     (isLower c \<and> startsWith isUpper cs
      \<or> isUpper c \<and> startsWith isUpper cs \<and> startsWith isLower (drop 1 cs)
      \<or> isDigit c \<and> (startsWith isLower cs \<or> startsWith isUpper cs)
      \<or> (isLower c \<or> isUpper c) \<and> startsWith isDigit cs
      \<or> isBreak c \<and> c \<noteq> CHR '' ''
      \<or> hasUnicodeWord cs)"

definition words :: "string \<Rightarrow> string list" where
  "words s = (if hasUnicodeWord s then unicodeWords s else asciiWords s)"

definition upperFirst :: "string \<Rightarrow> string" where
  "upperFirst s = (case s of [] \<Rightarrow> [] | c # cs \<Rightarrow> toUpperChar c # cs)"

definition capitalize :: "string \<Rightarrow> string" where
  "capitalize s = upperFirst (toLowerCase s)"

text \<open>\<^verbatim>\<open>words(deburr(string).replace(reApos, ''))\<close>; \<^verbatim>\<open>deburr\<close> changes no ASCII
  character.\<close>

definition compoundWords :: "string \<Rightarrow> string list" where
  "compoundWords s = words (filter (\<lambda>c. c \<noteq> CHR 0x27) s)"

fun arrayReduce :: "('a \<Rightarrow> 'b \<Rightarrow> nat \<Rightarrow> 'a) \<Rightarrow> 'b list \<Rightarrow> nat \<Rightarrow> 'a \<Rightarrow> 'a" where
  "arrayReduce f [] i acc = acc"
| "arrayReduce f (x # xs) i acc = arrayReduce f xs (Suc i) (f acc x i)"

text \<open>Modelled from the spec: lodash's \<^verbatim>\<open>camelCase\<close>, absent from the source tree. The
  words in lower case, each but the first capitalized, joined without a separator.\<close>

definition camelCase :: "string \<Rightarrow> string" where
  "camelCase s =
     arrayReduce (\<lambda>result word index.
         result @ (if index \<noteq> 0 then capitalize (toLowerCase word) else toLowerCase word))
       (compoundWords s) 0 []"

text \<open>Modelled from the spec: lodash's \<^verbatim>\<open>kebabCase\<close>, absent from the source tree. The
  words in lower case, joined by hyphens.\<close>

definition kebabCase :: "string \<Rightarrow> string" where
  "kebabCase s =
     arrayReduce (\<lambda>result word index.
         result @ (if index \<noteq> 0 then ''-'' else []) @ toLowerCase word)
       (compoundWords s) 0 []"

section \<open>The metadata document\<close>

text \<open>
  Modelled from the spec: the item shapes are declared in \<^verbatim>\<open>./types\<close>, which is not part
  of the source tree; the records follow the spec's data model and the fields the code
  reads. A field that the spec calls optional, or whose absence the code tests, is an
  \<open>option\<close> (\<open>None\<close> is \<^verbatim>\<open>undefined\<close>); the code's annotation gives a permitted value's
  literal as \<^verbatim>\<open>string | number\<close>.
\<close>

datatype literal = LString string | LNumber int

record jsonDocsValue =
  value_type :: string
  value_value :: literal

record jsonDocsProp =
  prop_name :: string
  prop_attr :: "string option"
  prop_type :: string
  prop_docs :: string
  prop_required :: bool
  prop_default :: string
  prop_values :: "jsonDocsValue list option"

record jsonDocsEvent =
  event_event :: string
  event_docs :: string
  event_detail :: string

record jsonDocsMethod =
  method_name :: string
  method_docs :: string
  method_signature :: string

record jsonDocsSlot =
  slot_name :: "string option"
  slot_docs :: string

text \<open>Style custom properties and shadow parts: \<^verbatim>\<open>T extends {name: string, docs: string}\<close>.\<close>

record jsonDocsNamed =
  item_name :: string
  item_docs :: string

record jsonDocsComponent =
  tag :: string
  readme :: "string option"
  docs :: "string option"
  props :: "jsonDocsProp list option"
  events :: "jsonDocsEvent list option"
  methods :: "jsonDocsMethod list option"
  slots :: "jsonDocsSlot list option"
  styles :: "jsonDocsNamed list option"
  parts :: "jsonDocsNamed list option"

type_synonym stencilJsonDocs = "jsonDocsComponent jsval"

record extractArgTypesOptions =
  dashCase :: "bool option"

section \<open>The control descriptors\<close>

text \<open>The object literals the mappers build. \<open>None\<close> in \<open>arg_control\<close> is
  \<^verbatim>\<open>control: null\<close>; \<open>None\<close> in another optional field is a property the literal does not
  have.\<close>

datatype control = Control string

datatype typeInfo =
    Required bool
  | Name string
  | Summary string

record tableInfo =
  category :: string
  table_type :: typeInfo
  defaultValue :: "string option"

record argType =
  arg_name :: "string option"
  arg_action :: "string option"
  arg_description :: string
  arg_required :: "bool option"
  arg_type :: typeInfo
  arg_control :: "control option"
  arg_options :: "literal list option"
  arg_table :: tableInfo

type_synonym argTypes = "string \<rightharpoonup> argType"

section \<open>Validators and component lookup\<close>

definition isValidComponent :: "'a jsval \<Rightarrow> error + bool" where
  "isValidComponent tagName =
     (if \<not> truthy tagName then Inr False
      else if typeof tagName = ''string'' then Inr True
      else Inl InvalidTagNameError)"

definition isValidMetaData :: "'a jsval \<Rightarrow> error + bool" where
  "isValidMetaData stencilDocJson =
     (if \<not> truthy stencilDocJson then Inr False
      else case getComponents stencilDocJson of
             Inl e \<Rightarrow> Inl e
           | Inr components \<Rightarrow>
               if truthy components \<and> isArray components then Inr True
               else Inl InvalidDocumentError)"

text \<open>\<^verbatim>\<open>stencilDocJson.components.find(component => component.tag.toUpperCase() ===
  tagName.toUpperCase())\<close>, reached only after both validators returned \<^verbatim>\<open>true\<close>.\<close>

definition findComponent ::
  "stencilJsonDocs \<Rightarrow> stencilJsonDocs \<Rightarrow> error + jsonDocsComponent nullable" where
  "findComponent tagName stencilDocJson =
     (case getComponents stencilDocJson of
        Inl e \<Rightarrow> Inl e
      | Inr (JArr components) \<Rightarrow>
          (case tagName of
             JStr t \<Rightarrow>
               (case find (\<lambda>component. toUpperCase (tag component) = toUpperCase t) components of
                  None \<Rightarrow> Inr Undefined
                | Some component \<Rightarrow> Inr (Defined component))
           | _ \<Rightarrow> (if components = [] then Inr Undefined else Inl TypeError))
      | Inr _ \<Rightarrow> Inl TypeError)"

text \<open>The first validator that returns \<^verbatim>\<open>false\<close> ends the \<^verbatim>\<open>||\<close>; one that raises ends
  the call. The warning logged for a tag that is not found changes no value and is left
  out.\<close>

definition getMetaData ::
  "stencilJsonDocs \<Rightarrow> stencilJsonDocs \<Rightarrow> error + jsonDocsComponent nullable" where
  "getMetaData tagName stencilDocJson =
     (case isValidComponent tagName of
        Inl e \<Rightarrow> Inl e
      | Inr False \<Rightarrow> Inr Null
      | Inr True \<Rightarrow>
          (case isValidMetaData stencilDocJson of
             Inl e \<Rightarrow> Inl e
           | Inr False \<Rightarrow> Inr Null
           | Inr True \<Rightarrow> findComponent tagName stencilDocJson))"

section \<open>Field mappers\<close>

definition mapItemValuesToOptions :: "jsonDocsProp \<Rightarrow> error + literal list" where
  "mapItemValuesToOptions item =
     (case prop_values item of
        None \<Rightarrow> Inl TypeError
      | Some vals \<Rightarrow>
          Inr (map value_value
                 (filter (\<lambda>v. value_type v \<in> set [''string'', ''number'']) vals)))"

definition mapPropTypeToControl ::
  "jsonDocsProp \<Rightarrow> error + (control option \<times> literal list option)" where
  "mapPropTypeToControl item =
     (if prop_type item = ''string'' then Inr (Some (Control ''text''), None)
      else if prop_type item = ''number'' then Inr (Some (Control ''number''), None)
      else if prop_type item = ''boolean'' then Inr (Some (Control ''boolean''), None)
      else if prop_type item = ''function'' \<or> prop_type item = ''void'' then Inr (None, None)
      else case mapItemValuesToOptions item of
             Inl e \<Rightarrow> Inl e
           | Inr opts \<Rightarrow>
               if length opts = 0 then Inr (Some (Control ''object''), Some opts)
               else if length opts < 5 then Inr (Some (Control ''radio''), Some opts)
               else Inr (Some (Control ''select''), Some opts))"

text \<open>\<^verbatim>\<open>dashCase === true ? kebabCase(key) : camelCase(key)\<close>\<close>

definition caseKey :: "extractArgTypesOptions \<Rightarrow> string \<Rightarrow> string" where
  "caseKey options key =
     (if dashCase options = Some True then kebabCase key else camelCase key)"

text \<open>\<^verbatim>\<open>item.attr || item.name\<close>: an absent or empty \<^verbatim>\<open>attr\<close> is falsy.\<close>

definition attrOrName :: "jsonDocsProp \<Rightarrow> string" where
  "attrOrName item =
     (case prop_attr item of
        None \<Rightarrow> prop_name item
      | Some a \<Rightarrow> if a = [] then prop_name item else a)"

text \<open>\<^verbatim>\<open>Array.prototype.reduce\<close> with a callback that may raise.\<close>

fun reduceE :: "('a \<Rightarrow> 'b \<Rightarrow> error + 'a) \<Rightarrow> 'b list \<Rightarrow> 'a \<Rightarrow> error + 'a" where
  "reduceE f [] acc = Inr acc"
| "reduceE f (x # xs) acc =
     (case f acc x of Inl e \<Rightarrow> Inl e | Inr acc' \<Rightarrow> reduceE f xs acc')"

definition propEntry :: "extractArgTypesOptions \<Rightarrow> argTypes \<Rightarrow> jsonDocsProp \<Rightarrow> error + argTypes" where
  "propEntry options acc item =
     (case mapPropTypeToControl item of
        Inl e \<Rightarrow> Inl e
      | Inr (control, opts) \<Rightarrow>
          Inr (acc(caseKey options (attrOrName item) \<mapsto>
            \<lparr> arg_name = Some (attrOrName item),
              arg_action = None,
              arg_description = prop_docs item,
              arg_required = None,
              arg_type = Required (prop_required item),
              arg_control = control,
              arg_options = opts,
              arg_table = \<lparr> category = ''props'',
                            table_type = Summary (prop_type item),
                            defaultValue = Some (prop_default item) \<rparr> \<rparr>)))"

text \<open>Each mapper is \<^verbatim>\<open>data && data.reduce(..., {})\<close>: \<open>None\<close> for an absent list (the
  code returns the falsy \<^verbatim>\<open>data\<close> itself), the filled object otherwise; an empty array
  is truthy.\<close>

definition mapPropsData ::
  "jsonDocsProp list option \<Rightarrow> extractArgTypesOptions \<Rightarrow> error + argTypes option" where
  "mapPropsData data options =
     (case data of
        None \<Rightarrow> Inr None
      | Some items \<Rightarrow>
          (case reduceE (propEntry options) items Map.empty of
             Inl e \<Rightarrow> Inl e
           | Inr acc \<Rightarrow> Inr (Some acc)))"

definition eventEntry :: "extractArgTypesOptions \<Rightarrow> argTypes \<Rightarrow> jsonDocsEvent \<Rightarrow> argTypes" where
  "eventEntry options acc item =
     acc(caseKey options (''event-'' @ event_event item) \<mapsto>
       \<lparr> arg_name = Some (event_event item),
         arg_action = Some (event_event item),
         arg_description = event_docs item,
         arg_required = None,
         arg_type = Name ''void'',
         arg_control = None,
         arg_options = None,
         arg_table = \<lparr> category = ''events'',
                       table_type = Summary (event_detail item),
                       defaultValue = None \<rparr> \<rparr>)"

definition mapEventsData ::
  "jsonDocsEvent list option \<Rightarrow> extractArgTypesOptions \<Rightarrow> argTypes option" where
  "mapEventsData data options =
     (case data of
        None \<Rightarrow> None
      | Some items \<Rightarrow> Some (foldl (eventEntry options) Map.empty items))"

definition methodEntry :: "extractArgTypesOptions \<Rightarrow> argTypes \<Rightarrow> jsonDocsMethod \<Rightarrow> argTypes" where
  "methodEntry options acc item =
     acc(caseKey options (''method-'' @ method_name item) \<mapsto>
       \<lparr> arg_name = Some (method_name item),
         arg_action = None,
         arg_description = method_docs item,
         arg_required = None,
         arg_type = Name ''void'',
         arg_control = None,
         arg_options = None,
         arg_table = \<lparr> category = ''methods'',
                       table_type = Summary (method_signature item),
                       defaultValue = None \<rparr> \<rparr>)"

definition mapMethodsData ::
  "jsonDocsMethod list option \<Rightarrow> extractArgTypesOptions \<Rightarrow> argTypes option" where
  "mapMethodsData data options =
     (case data of
        None \<Rightarrow> None
      | Some items \<Rightarrow> Some (foldl (methodEntry options) Map.empty items))"

text \<open>\<^verbatim>\<open>item.name || '_default'\<close>\<close>

definition slotNameOrDefault :: "jsonDocsSlot \<Rightarrow> string" where
  "slotNameOrDefault item =
     (case slot_name item of
        None \<Rightarrow> ''_default''
      | Some n \<Rightarrow> if n = [] then ''_default'' else n)"

definition slotEntry :: "extractArgTypesOptions \<Rightarrow> argTypes \<Rightarrow> jsonDocsSlot \<Rightarrow> argTypes" where
  "slotEntry options acc item =
     acc(caseKey options (''slot-'' @ slotNameOrDefault item) \<mapsto>
       \<lparr> arg_name = slot_name item,
         arg_action = None,
         arg_description = slot_docs item,
         arg_required = Some False,
         arg_type = Name ''void'',
         arg_control = None,
         arg_options = None,
         arg_table = \<lparr> category = ''slots'',
                       table_type = Name ''void'',
                       defaultValue = None \<rparr> \<rparr>)"

definition mapSlotsData ::
  "jsonDocsSlot list option \<Rightarrow> extractArgTypesOptions \<Rightarrow> argTypes option" where
  "mapSlotsData data options =
     (case data of
        None \<Rightarrow> None
      | Some items \<Rightarrow> Some (foldl (slotEntry options) Map.empty items))"

definition genericEntry ::
  "string \<Rightarrow> extractArgTypesOptions \<Rightarrow> argTypes \<Rightarrow> jsonDocsNamed \<Rightarrow> argTypes" where
  "genericEntry cat options acc item =
     acc(caseKey options (cat @ ''-'' @ item_name item) \<mapsto>
       \<lparr> arg_name = Some (item_name item),
         arg_action = None,
         arg_description = item_docs item,
         arg_required = Some False,
         arg_type = Name ''void'',
         arg_control = None,
         arg_options = None,
         arg_table = \<lparr> category = cat,
                       table_type = Name ''void'',
                       defaultValue = None \<rparr> \<rparr>)"

definition mapGenericData ::
  "jsonDocsNamed list option \<Rightarrow> string \<Rightarrow> extractArgTypesOptions \<Rightarrow> argTypes option" where
  "mapGenericData data cat options =
     (case data of
        None \<Rightarrow> None
      | Some items \<Rightarrow> Some (foldl (genericEntry cat options) Map.empty items))"

section \<open>Public entry points\<close>

text \<open>The process-wide slot \<^verbatim>\<open>window.__STORYBOOK_STENCIL_DOC_JSON__\<close>, \<^verbatim>\<open>undefined\<close> until
  a document is registered.\<close>

record window =
  STORYBOOK_STENCIL_DOC_JSON :: stencilJsonDocs

definition setStencilDocJson :: "stencilJsonDocs \<Rightarrow> window \<Rightarrow> window" where
  "setStencilDocJson stencilDocJson w = w\<lparr>STORYBOOK_STENCIL_DOC_JSON := stencilDocJson\<rparr>"

definition getStencilDocJson :: "window \<Rightarrow> stencilJsonDocs" where
  "getStencilDocJson w = STORYBOOK_STENCIL_DOC_JSON w"

text \<open>The spread \<^verbatim>\<open>...x\<close> in an object literal: no key for \<^verbatim>\<open>undefined\<close>, the own keys
  of an object; a later spread overwrites the keys of an earlier one.\<close>

definition spread :: "argTypes option \<Rightarrow> argTypes" where
  "spread x = (case x of None \<Rightarrow> Map.empty | Some m \<Rightarrow> m)"

definition extractArgTypesFromElements ::
  "stencilJsonDocs \<Rightarrow> stencilJsonDocs \<Rightarrow> extractArgTypesOptions \<Rightarrow> error + argTypes nullable" where
  "extractArgTypesFromElements tagName stencilDocJson options =
     (case getMetaData tagName stencilDocJson of
        Inl e \<Rightarrow> Inl e
      | Inr Null \<Rightarrow> Inr Null
      | Inr Undefined \<Rightarrow> Inr Undefined
      | Inr (Defined metaData) \<Rightarrow>
          (case mapPropsData (props metaData) options of
             Inl e \<Rightarrow> Inl e
           | Inr p \<Rightarrow>
               Inr (Defined
                 (spread p
                  ++ spread (mapEventsData (events metaData) options)
                  ++ spread (mapMethodsData (methods metaData) options)
                  ++ spread (mapSlotsData (slots metaData) options)
                  ++ spread (mapGenericData (styles metaData) ''css custom properties'' options)
                  ++ spread (mapGenericData (parts metaData) ''css shadow parts'' options)))))"

text \<open>\<^verbatim>\<open>{dashCase: false, ...options}\<close>: the factory's option overrides the default when
  it is given. A \<^verbatim>\<open>dashCase\<close> given as \<^verbatim>\<open>undefined\<close> is read like an absent one; both
  fail the test \<^verbatim>\<open>dashCase === true\<close>.\<close>

definition withDefaults :: "extractArgTypesOptions \<Rightarrow> extractArgTypesOptions" where
  "withDefaults options =
     \<lparr> dashCase = (case dashCase options of None \<Rightarrow> Some False | Some b \<Rightarrow> Some b) \<rparr>"

text \<open>The closure the factory returns takes the tag name; the window it reads is the
  one at the time of the call.\<close>

definition extractArgTypesFactory ::
  "extractArgTypesOptions \<Rightarrow> stencilJsonDocs \<Rightarrow> window \<Rightarrow> error + argTypes nullable" where
  "extractArgTypesFactory options =
     (\<lambda>tagName w.
        extractArgTypesFromElements tagName (getStencilDocJson w) (withDefaults options))"

definition extractArgTypes :: "stencilJsonDocs \<Rightarrow> window \<Rightarrow> error + argTypes nullable" where
  "extractArgTypes = extractArgTypesFactory \<lparr> dashCase = None \<rparr>"

text \<open>\<^verbatim>\<open>metaData && (metaData.readme || metaData.docs)\<close>: an absent or empty readme is
  falsy, and the result is then \<^verbatim>\<open>docs\<close>, which may itself be absent.\<close>

definition extractComponentDescription ::
  "stencilJsonDocs \<Rightarrow> window \<Rightarrow> error + string nullable" where
  "extractComponentDescription tagName w =
     (case getMetaData tagName (getStencilDocJson w) of
        Inl e \<Rightarrow> Inl e
      | Inr Null \<Rightarrow> Inr Null
      | Inr Undefined \<Rightarrow> Inr Undefined
      | Inr (Defined metaData) \<Rightarrow>
          (case readme metaData of
             Some r \<Rightarrow>
               if r \<noteq> [] then Inr (Defined r)
               else (case docs metaData of None \<Rightarrow> Inr Undefined | Some d \<Rightarrow> Inr (Defined d))
           | None \<Rightarrow>
               (case docs metaData of None \<Rightarrow> Inr Undefined | Some d \<Rightarrow> Inr (Defined d))))"

section \<open>Example documents\<close>

text \<open>Concrete windows, documents and items at which the theorems below are
  instantiated.\<close>

definition emptyWindow :: window where
  "emptyWindow = \<lparr> STORYBOOK_STENCIL_DOC_JSON = JUndefined \<rparr>"

definition docOf :: "jsonDocsComponent list \<Rightarrow> stencilJsonDocs" where
  "docOf components = JObj [(''components'', JArr components)]"

definition component :: "string \<Rightarrow> string option \<Rightarrow> string option \<Rightarrow> jsonDocsComponent" where
  "component t r d =
     \<lparr> tag = t, readme = r, docs = d, props = None, events = None,
       methods = None, slots = None, styles = None, parts = None \<rparr>"

definition strValue :: "string \<Rightarrow> jsonDocsValue" where
  "strValue s = \<lparr> value_type = ''string'', value_value = LString s \<rparr>"

definition enumProp :: "jsonDocsValue list option \<Rightarrow> jsonDocsProp" where
  "enumProp vals =
     \<lparr> prop_name = ''size'', prop_attr = Some ''size'', prop_type = ''Size'',
       prop_docs = ''The size'', prop_required = False, prop_default = ''s'',
       prop_values = vals \<rparr>"

definition myCardProp :: jsonDocsProp where
  "myCardProp =
     \<lparr> prop_name = ''title'', prop_attr = Some ''title'', prop_type = ''string'',
       prop_docs = ''The title'', prop_required = True, prop_default = ''Hi'',
       prop_values = Some [] \<rparr>"

definition myCardEvent :: jsonDocsEvent where
  "myCardEvent =
     \<lparr> event_event = ''cardClick'', event_docs = ''Clicked'', event_detail = ''void'' \<rparr>"

definition myCard :: jsonDocsComponent where
  "myCard =
     \<lparr> tag = ''my-card'', readme = None, docs = None, props = Some [myCardProp],
       events = Some [myCardEvent], methods = Some [], slots = Some [], styles = Some [],
       parts = Some [] \<rparr>"

definition myCardArgTypes :: argTypes where
  "myCardArgTypes =
     [''title'' \<mapsto>
        \<lparr> arg_name = Some ''title'', arg_action = None, arg_description = ''The title'',
          arg_required = None, arg_type = Required True,
          arg_control = Some (Control ''text''), arg_options = None,
          arg_table = \<lparr> category = ''props'', table_type = Summary ''string'',
                        defaultValue = Some ''Hi'' \<rparr> \<rparr>,
      ''eventCardClick'' \<mapsto>
        \<lparr> arg_name = Some ''cardClick'', arg_action = Some ''cardClick'',
          arg_description = ''Clicked'', arg_required = None, arg_type = Name ''void'',
          arg_control = None, arg_options = None,
          arg_table = \<lparr> category = ''events'', table_type = Summary ''void'',
                        defaultValue = None \<rparr> \<rparr>]"

definition collidingProp :: jsonDocsProp where
  "collidingProp =
     \<lparr> prop_name = ''eventClick'', prop_attr = Some ''event-click'', prop_type = ''string'',
       prop_docs = ''A prop'', prop_required = False, prop_default = ''x'',
       prop_values = None \<rparr>"

definition collidingEvent :: jsonDocsEvent where
  "collidingEvent =
     \<lparr> event_event = ''click'', event_docs = ''An event'', event_detail = ''void'' \<rparr>"

definition collidingComponent :: jsonDocsComponent where
  "collidingComponent =
     \<lparr> tag = ''my-card'', readme = None, docs = None, props = Some [collidingProp],
       events = Some [collidingEvent], methods = None, slots = None, styles = None,
       parts = None \<rparr>"

definition myEvent :: jsonDocsEvent where
  "myEvent = \<lparr> event_event = ''myEvent'', event_docs = ''Fired'', event_detail = ''string'' \<rparr>"

section \<open>Evaluation lemmas\<close>

lemmas char_class_defs =
  isLower_def isUpper_def isDigit_def isBreak_def lowerChars_def upperChars_def digitChars_def

lemmas word_defs =
  wordLength_def lowerWordBounded_def upperWordBounded_def lowerWord_def ordUpper_def
  ordLower_def ordinal_def span_def startsWith_def

lemmas lookup_defs =
  getMetaData_def isValidComponent_def isValidMetaData_def findComponent_def
  getStencilDocJson_def setStencilDocJson_def docOf_def emptyWindow_def

lemma toUpperCase_examples:
  "toUpperCase ''MY-ELEMENT'' = ''MY-ELEMENT''"
  "toUpperCase ''My-Element'' = ''MY-ELEMENT''"
  "toUpperCase ''my-element'' = ''MY-ELEMENT''"
  "toUpperCase ''my-card'' = ''MY-CARD''"
  "toUpperCase ''other'' = ''OTHER''"
  by (simp_all add: toUpperCase_def toUpperChar_def lowerChars_def upperChars_def)

lemma casing_examples:
  "camelCase ''title'' = ''title''"
  "camelCase ''event-cardClick'' = ''eventCardClick''"
  "camelCase ''event-myEvent'' = ''eventMyEvent''"
  "kebabCase ''event-myEvent'' = ''event-my-event''"
  "camelCase ''event-click'' = ''eventClick''"
  by code_simp+

lemma noItems_simps:
  "x \<in> {None, Some []} \<Longrightarrow> spread (mapMethodsData x options) = Map.empty"
  "y \<in> {None, Some []} \<Longrightarrow> spread (mapSlotsData y options) = Map.empty"
  "z \<in> {None, Some []} \<Longrightarrow> spread (mapGenericData z cat options) = Map.empty"
  by (auto simp: spread_def mapMethodsData_def mapSlotsData_def mapGenericData_def)

lemma arrayReduce_prefix:
  assumes "\<And>result word index. \<exists>r. f result word index = result @ r"
  shows "\<exists>r. arrayReduce f ws i acc = acc @ r"
proof (induction ws arbitrary: i acc)
  case Nil
  show ?case by simp
next
  case (Cons w ws)
  obtain r1 where r1: "f acc w i = acc @ r1"
    using assms by blast
  obtain r2 where "arrayReduce f ws (Suc i) (acc @ r1) = (acc @ r1) @ r2"
    using Cons.IH by blast
  with r1 show ?case by simp
qed

lemma caseKey_first_word:
  assumes "compoundWords s = w # ws"
  shows "\<exists>r. caseKey options s = toLowerCase w @ r"
proof (cases "dashCase options = Some True")
  case True
  have "\<exists>r. arrayReduce (\<lambda>result word index.
         result @ (if index \<noteq> 0 then ''-'' else []) @ toLowerCase word)
       ws (Suc 0) (toLowerCase w) = toLowerCase w @ r"
    by (rule arrayReduce_prefix) simp
  with True assms show ?thesis
    by (simp add: caseKey_def kebabCase_def)
next
  case False
  have "\<exists>r. arrayReduce (\<lambda>result word index.
         result @ (if index \<noteq> 0 then capitalize (toLowerCase word) else toLowerCase word))
       ws (Suc 0) (toLowerCase w) = toLowerCase w @ r"
    by (rule arrayReduce_prefix) simp
  with False assms show ?thesis
    by (simp add: caseKey_def camelCase_def)
qed

lemma compoundWords_prefixes:
  "\<exists>ws. compoundWords (''event-'' @ x) = ''event'' # ws"
  "\<exists>ws. compoundWords (''method-'' @ x) = ''method'' # ws"
  "\<exists>ws. compoundWords (''slot-'' @ x) = ''slot'' # ws"
  "\<exists>ws. compoundWords (''css '' @ x) = ''css'' # ws"
  by (simp_all add: compoundWords_def words_def word_defs char_class_defs Let_def)

lemma toLowerCase_prefixes:
  "toLowerCase ''event'' = ''event''" "toLowerCase ''method'' = ''method''"
  "toLowerCase ''slot'' = ''slot''" "toLowerCase ''css'' = ''css''"
  by (simp_all add: toLowerCase_def toLowerChar_def lowerChars_def upperChars_def)

lemma caseKey_event: "\<exists>r. caseKey options (''event-'' @ x) = CHR ''e'' # r"
proof -
  obtain ws where "compoundWords (''event-'' @ x) = ''event'' # ws"
    using compoundWords_prefixes(1) by blast
  then obtain r where "caseKey options (''event-'' @ x) = toLowerCase ''event'' @ r"
    using caseKey_first_word by blast
  then have "caseKey options (''event-'' @ x) = CHR ''e'' # (''vent'' @ r)"
    by (simp only: toLowerCase_prefixes append.simps)
  then show ?thesis by blast
qed

lemma caseKey_method: "\<exists>r. caseKey options (''method-'' @ x) = CHR ''m'' # r"
proof -
  obtain ws where "compoundWords (''method-'' @ x) = ''method'' # ws"
    using compoundWords_prefixes(2) by blast
  then obtain r where "caseKey options (''method-'' @ x) = toLowerCase ''method'' @ r"
    using caseKey_first_word by blast
  then have "caseKey options (''method-'' @ x) = CHR ''m'' # (''ethod'' @ r)"
    by (simp only: toLowerCase_prefixes append.simps)
  then show ?thesis by blast
qed

lemma caseKey_slot: "\<exists>r. caseKey options (''slot-'' @ x) = CHR ''s'' # r"
proof -
  obtain ws where "compoundWords (''slot-'' @ x) = ''slot'' # ws"
    using compoundWords_prefixes(3) by blast
  then obtain r where "caseKey options (''slot-'' @ x) = toLowerCase ''slot'' @ r"
    using caseKey_first_word by blast
  then have "caseKey options (''slot-'' @ x) = CHR ''s'' # (''lot'' @ r)"
    by (simp only: toLowerCase_prefixes append.simps)
  then show ?thesis by blast
qed

lemma caseKey_css: "\<exists>r. caseKey options (''css '' @ x) = CHR ''c'' # r"
proof -
  obtain ws where "compoundWords (''css '' @ x) = ''css'' # ws"
    using compoundWords_prefixes(4) by blast
  then obtain r where "caseKey options (''css '' @ x) = toLowerCase ''css'' @ r"
    using caseKey_first_word by blast
  then have "caseKey options (''css '' @ x) = CHR ''c'' # (''ss'' @ r)"
    by (simp only: toLowerCase_prefixes append.simps)
  then show ?thesis by blast
qed

lemma dom_foldl_eventEntry:
  "dom (foldl (eventEntry options) acc items)
     = dom acc \<union> (\<lambda>i. caseKey options (''event-'' @ event_event i)) ` set items"
  by (induction items arbitrary: acc) (auto simp: eventEntry_def)

lemma dom_foldl_methodEntry:
  "dom (foldl (methodEntry options) acc items)
     = dom acc \<union> (\<lambda>i. caseKey options (''method-'' @ method_name i)) ` set items"
  by (induction items arbitrary: acc) (auto simp: methodEntry_def)

lemma dom_foldl_slotEntry:
  "dom (foldl (slotEntry options) acc items)
     = dom acc \<union> (\<lambda>i. caseKey options (''slot-'' @ slotNameOrDefault i)) ` set items"
  by (induction items arbitrary: acc) (auto simp: slotEntry_def)

lemma dom_foldl_genericEntry:
  "dom (foldl (genericEntry cat options) acc items)
     = dom acc \<union> (\<lambda>i. caseKey options (cat @ ''-'' @ item_name i)) ` set items"
  by (induction items arbitrary: acc) (auto simp: genericEntry_def)

lemma event_keys:
  assumes "k \<in> dom (spread (mapEventsData data options))"
  shows "\<exists>r. k = CHR ''e'' # r"
proof (cases data)
  case None
  with assms show ?thesis
    by (simp add: spread_def mapEventsData_def)
next
  case (Some items)
  with assms have "k \<in> dom (foldl (eventEntry options) Map.empty items)"
    by (simp add: spread_def mapEventsData_def)
  then obtain i where "i \<in> set items" and "k = caseKey options (''event-'' @ event_event i)"
    unfolding dom_foldl_eventEntry by auto
  then show ?thesis
    using caseKey_event [of options "event_event i"] by simp
qed

lemma method_keys:
  assumes "k \<in> dom (spread (mapMethodsData data options))"
  shows "\<exists>r. k = CHR ''m'' # r"
proof (cases data)
  case None
  with assms show ?thesis
    by (simp add: spread_def mapMethodsData_def)
next
  case (Some items)
  with assms have "k \<in> dom (foldl (methodEntry options) Map.empty items)"
    by (simp add: spread_def mapMethodsData_def)
  then obtain i where "i \<in> set items" and "k = caseKey options (''method-'' @ method_name i)"
    unfolding dom_foldl_methodEntry by auto
  then show ?thesis
    using caseKey_method [of options "method_name i"] by simp
qed

lemma slot_keys:
  assumes "k \<in> dom (spread (mapSlotsData data options))"
  shows "\<exists>r. k = CHR ''s'' # r"
proof (cases data)
  case None
  with assms show ?thesis
    by (simp add: spread_def mapSlotsData_def)
next
  case (Some items)
  with assms have "k \<in> dom (foldl (slotEntry options) Map.empty items)"
    by (simp add: spread_def mapSlotsData_def)
  then obtain i where "i \<in> set items" and "k = caseKey options (''slot-'' @ slotNameOrDefault i)"
    unfolding dom_foldl_slotEntry by auto
  then show ?thesis
    using caseKey_slot [of options "slotNameOrDefault i"] by simp
qed

lemma style_keys:
  assumes "k \<in> dom (spread (mapGenericData data ''css custom properties'' options))"
  shows "\<exists>r. k = CHR ''c'' # r"
proof (cases data)
  case None
  with assms show ?thesis
    by (simp add: spread_def mapGenericData_def)
next
  case (Some items)
  with assms have "k \<in> dom (foldl (genericEntry ''css custom properties'' options) Map.empty items)"
    by (simp add: spread_def mapGenericData_def)
  then obtain i where "i \<in> set items" and "k = caseKey options (''css custom properties'' @ ''-'' @ item_name i)"
    unfolding dom_foldl_genericEntry by auto
  then show ?thesis
    using caseKey_css [of options "''custom properties-'' @ item_name i"] by simp
qed

lemma part_keys:
  assumes "k \<in> dom (spread (mapGenericData data ''css shadow parts'' options))"
  shows "\<exists>r. k = CHR ''c'' # r"
proof (cases data)
  case None
  with assms show ?thesis
    by (simp add: spread_def mapGenericData_def)
next
  case (Some items)
  with assms have "k \<in> dom (foldl (genericEntry ''css shadow parts'' options) Map.empty items)"
    by (simp add: spread_def mapGenericData_def)
  then obtain i where "i \<in> set items" and "k = caseKey options (''css shadow parts'' @ ''-'' @ item_name i)"
    unfolding dom_foldl_genericEntry by auto
  then show ?thesis
    using caseKey_css [of options "''shadow parts-'' @ item_name i"] by simp
qed

lemma later_facets_miss_event_key:
  assumes "k \<in> dom (spread (mapEventsData es options))"
  shows "spread (mapMethodsData ms options) k = None"
    and "spread (mapSlotsData ss options) k = None"
    and "spread (mapGenericData st ''css custom properties'' options) k = None"
    and "spread (mapGenericData pa ''css shadow parts'' options) k = None"
proof -
  obtain r where k: "k = CHR ''e'' # r"
    using event_keys [OF assms] by blast
  show "spread (mapMethodsData ms options) k = None"
    using method_keys [of k ms options] k by (cases "spread (mapMethodsData ms options) k") auto
  show "spread (mapSlotsData ss options) k = None"
    using slot_keys [of k ss options] k by (cases "spread (mapSlotsData ss options) k") auto
  show "spread (mapGenericData st ''css custom properties'' options) k = None"
    using style_keys [of k st options] k
    by (cases "spread (mapGenericData st ''css custom properties'' options) k") auto
  show "spread (mapGenericData pa ''css shadow parts'' options) k = None"
    using part_keys [of k pa options] k
    by (cases "spread (mapGenericData pa ''css shadow parts'' options) k") auto
qed

section \<open>Validation errors\<close>

text \<open>
  C2, as amended. For a tag name that is not a string, component resolution raises the
  invalid-tag-name error when the tag name is truthy (a number other than \<^verbatim>\<open>0\<close> and
  \<^verbatim>\<open>NaN\<close>, \<^verbatim>\<open>true\<close>, an object, an array), whatever the document is, and returns
  \<^verbatim>\<open>null\<close> without raising when the tag name is falsy (\<^verbatim>\<open>undefined\<close>, \<^verbatim>\<open>null\<close>, \<^verbatim>\<open>0\<close>,
  \<^verbatim>\<open>NaN\<close>, \<^verbatim>\<open>false\<close>).
\<close>

theorem invalid_tag_name_raises:
  assumes "typeof tagName \<noteq> ''string''"
  shows "getMetaData tagName stencilDocJson =
           (if truthy tagName then Inl InvalidTagNameError else Inr Null)"
  using assms by (simp add: getMetaData_def isValidComponent_def)

theorem invalid_tag_name_raises_witness:
  "typeof (JNum 5 :: stencilJsonDocs) \<noteq> ''string''
   \<and> getMetaData (JNum 5) (JObj []) = Inl InvalidTagNameError
   \<and> typeof (JObj [] :: stencilJsonDocs) \<noteq> ''string''
   \<and> getMetaData (JObj []) JUndefined = Inl InvalidTagNameError
   \<and> typeof (JNull :: stencilJsonDocs) \<noteq> ''string''
   \<and> getMetaData JNull (JObj []) = Inr Null"
  using invalid_tag_name_raises [of "JNum 5" "JObj []"]
    invalid_tag_name_raises [of "JObj []" JUndefined]
    invalid_tag_name_raises [of JNull "JObj []"]
  by simp

text \<open>
  C2 as stated fails at the numbers \<^verbatim>\<open>0\<close> and \<^verbatim>\<open>NaN\<close> and at \<^verbatim>\<open>false\<close>: each is a tag
  name that is given and is not a string, and for each \<^verbatim>\<open>!tagName\<close> holds, so that
  resolution returns \<^verbatim>\<open>null\<close> and raises nothing.
\<close>

theorem invalid_tag_name_falsy_counterexample:
  "typeof (JNum 0 :: stencilJsonDocs) = ''number''
   \<and> getMetaData (JNum 0) (JObj []) = Inr Null
   \<and> typeof (JNaN :: stencilJsonDocs) = ''number''
   \<and> getMetaData JNaN (JObj []) = Inr Null
   \<and> typeof (JBool False :: stencilJsonDocs) = ''boolean''
   \<and> getMetaData (JBool False) (JObj []) = Inr Null"
  by (simp add: getMetaData_def isValidComponent_def)

text \<open>
  C3, as amended. For a document whose \<^verbatim>\<open>components\<close> field is missing or not a list,
  and any tag name, the tag name is validated first: a falsy tag name (\<^verbatim>\<open>undefined\<close>,
  \<^verbatim>\<open>null\<close>, the empty string, \<^verbatim>\<open>0\<close>, \<^verbatim>\<open>NaN\<close>, \<^verbatim>\<open>false\<close>) gives \<^verbatim>\<open>null\<close> without any
  error, and a truthy tag name that is not a string raises the invalid-tag-name error.
  For a non-empty string as tag name, resolution raises the invalid-document error when
  the document is truthy, and returns \<^verbatim>\<open>null\<close> without raising when the document is
  falsy (\<^verbatim>\<open>undefined\<close>, \<^verbatim>\<open>null\<close>, the empty string, \<^verbatim>\<open>0\<close>, \<^verbatim>\<open>NaN\<close>, \<^verbatim>\<open>false\<close>).
\<close>

theorem invalid_document_raises:
  assumes "\<forall>xs. getComponents stencilDocJson \<noteq> Inr (JArr xs)"
  shows "getMetaData tagName stencilDocJson =
           (if \<not> truthy tagName then Inr Null
            else if typeof tagName \<noteq> ''string'' then Inl InvalidTagNameError
            else if truthy stencilDocJson then Inl InvalidDocumentError
            else Inr Null)"
proof (cases "truthy stencilDocJson")
  case True
  have "isValidMetaData stencilDocJson = Inl InvalidDocumentError"
  proof (cases "getComponents stencilDocJson")
    case (Inl e)
    with True show ?thesis
      by (cases stencilDocJson) (simp_all split: option.splits)
  next
    case (Inr c)
    with assms have "\<not> isArray c" by (cases c) simp_all
    with Inr True show ?thesis by (simp add: isValidMetaData_def)
  qed
  with True show ?thesis by (simp add: getMetaData_def isValidComponent_def)
next
  case False
  then have "isValidMetaData stencilDocJson = Inr False"
    by (simp add: isValidMetaData_def)
  with False show ?thesis by (simp add: getMetaData_def isValidComponent_def)
qed

theorem invalid_document_raises_witness:
  "getMetaData (JStr ''my-card'') (JObj [(''components'', JStr ''x'')])
       = Inl InvalidDocumentError
   \<and> getMetaData (JStr ''my-card'') (JNum 7) = Inl InvalidDocumentError
   \<and> getMetaData (JStr ''my-card'') (JNum 0) = Inr Null
   \<and> getMetaData (JStr ''my-card'') (JBool False) = Inr Null
   \<and> getMetaData (JStr []) (JObj []) = Inr Null
   \<and> getMetaData (JNum 0) (JObj []) = Inr Null
   \<and> getMetaData (JNum 5) (JObj []) = Inl InvalidTagNameError"
  using invalid_document_raises [of "JObj [(''components'', JStr ''x'')]" "JStr ''my-card''"]
    invalid_document_raises [of "JNum 7" "JStr ''my-card''"]
    invalid_document_raises [of "JNum 0" "JStr ''my-card''"]
    invalid_document_raises [of "JBool False" "JStr ''my-card''"]
    invalid_document_raises [of "JObj []" "JStr []"]
    invalid_document_raises [of "JObj []" "JNum 0"]
    invalid_document_raises [of "JObj []" "JNum 5"]
  by simp

text \<open>
  C3 as stated, for any tag name and every document that is not absent, fails: the
  object \<^verbatim>\<open>{}\<close> is a document that is not absent and has no \<^verbatim>\<open>components\<close>, yet
  resolution returns \<^verbatim>\<open>null\<close> for the tag names \<^verbatim>\<open>""\<close> and \<^verbatim>\<open>undefined\<close>, and raises
  the other error for the tag name \<^verbatim>\<open>5\<close>; and the documents \<^verbatim>\<open>0\<close> and \<^verbatim>\<open>false\<close>, which
  are given and have no \<^verbatim>\<open>components\<close>, return \<^verbatim>\<open>null\<close> for a string tag name.
\<close>

theorem invalid_document_any_tag_counterexample:
  "truthy (JObj [] :: stencilJsonDocs)
   \<and> getComponents (JObj [] :: stencilJsonDocs) = Inr JUndefined
   \<and> getMetaData (JStr []) (JObj []) = Inr Null
   \<and> getMetaData JUndefined (JObj []) = Inr Null
   \<and> getMetaData (JNum 5) (JObj []) = Inl InvalidTagNameError
   \<and> getComponents (JNum 0 :: stencilJsonDocs) = Inr JUndefined
   \<and> getMetaData (JStr ''my-card'') (JNum 0) = Inr Null
   \<and> getComponents (JBool False :: stencilJsonDocs) = Inr JUndefined
   \<and> getMetaData (JStr ''my-card'') (JBool False) = Inr Null"
  by (simp add: getMetaData_def isValidComponent_def isValidMetaData_def)

section \<open>Component lookup\<close>

text \<open>
  C7. Lookup is case-insensitive: when the components list of the document contains a
  record tagged \<^verbatim>\<open>my-element\<close>, resolution with the tag names \<^verbatim>\<open>MY-ELEMENT\<close>,
  \<^verbatim>\<open>My-Element\<close> and \<^verbatim>\<open>my-element\<close> returns one and the same record, the first of the
  list whose tag is \<^verbatim>\<open>my-element\<close> up to case.
\<close>

theorem lookup_case_insensitive:
  assumes "getComponents stencilDocJson = Inr (JArr components)"
    and "c \<in> set components" and "tag c = ''my-element''"
  shows "\<exists>r. find (\<lambda>x. toUpperCase (tag x) = ''MY-ELEMENT'') components = Some r
           \<and> getMetaData (JStr ''MY-ELEMENT'') stencilDocJson = Inr (Defined r)
           \<and> getMetaData (JStr ''My-Element'') stencilDocJson = Inr (Defined r)
           \<and> getMetaData (JStr ''my-element'') stencilDocJson = Inr (Defined r)"
proof -
  have "truthy stencilDocJson"
    using assms(1) by (cases stencilDocJson) simp_all
  with assms(1) have valid: "isValidMetaData stencilDocJson = Inr True"
    by (simp add: isValidMetaData_def)
  have "toUpperCase (tag c) = ''MY-ELEMENT''"
    using assms(3) by (simp add: toUpperCase_examples)
  with assms(2) obtain r
    where r: "find (\<lambda>x. toUpperCase (tag x) = ''MY-ELEMENT'') components = Some r"
    by (cases "find (\<lambda>x. toUpperCase (tag x) = ''MY-ELEMENT'') components")
      (auto simp: find_None_iff)
  have "getMetaData (JStr t) stencilDocJson = Inr (Defined r)"
    if "t \<noteq> []" and "toUpperCase t = ''MY-ELEMENT''" for t
    using that valid assms(1) r
    by (simp add: getMetaData_def isValidComponent_def findComponent_def)
  with r show ?thesis
    by (simp add: toUpperCase_examples)
qed

theorem lookup_case_insensitive_witness:
  "getMetaData (JStr ''MY-ELEMENT'')
      (docOf [component ''other'' None None, component ''my-element'' (Some ''r'') None])
     = Inr (Defined (component ''my-element'' (Some ''r'') None))
   \<and> getMetaData (JStr ''My-Element'')
      (docOf [component ''other'' None None, component ''my-element'' (Some ''r'') None])
     = Inr (Defined (component ''my-element'' (Some ''r'') None))
   \<and> getMetaData (JStr ''my-element'')
      (docOf [component ''other'' None None, component ''my-element'' (Some ''r'') None])
     = Inr (Defined (component ''my-element'' (Some ''r'') None))"
  using lookup_case_insensitive
    [of "docOf [component ''other'' None None, component ''my-element'' (Some ''r'') None]"
      "[component ''other'' None None, component ''my-element'' (Some ''r'') None]"
      "component ''my-element'' (Some ''r'') None"]
  by (simp add: docOf_def component_def toUpperCase_examples)

section \<open>Prop controls\<close>

text \<open>
  C4. The control of a prop item follows its declared type: \<^verbatim>\<open>string\<close> gives a text
  control, \<^verbatim>\<open>number\<close> a number control, \<^verbatim>\<open>boolean\<close> a boolean control, \<^verbatim>\<open>function\<close> and
  \<^verbatim>\<open>void\<close> no control, all without options. For any other type the permitted values
  whose own type is \<^verbatim>\<open>string\<close> or \<^verbatim>\<open>number\<close> qualify; their literals are the options,
  and the control is an object control for none, a radio control for one to four, a
  select control for five or more.
\<close>

theorem prop_type_to_control:
  "(prop_type item = ''string'' \<longrightarrow>
      mapPropTypeToControl item = Inr (Some (Control ''text''), None))
   \<and> (prop_type item = ''number'' \<longrightarrow>
      mapPropTypeToControl item = Inr (Some (Control ''number''), None))
   \<and> (prop_type item = ''boolean'' \<longrightarrow>
      mapPropTypeToControl item = Inr (Some (Control ''boolean''), None))
   \<and> (prop_type item = ''function'' \<or> prop_type item = ''void'' \<longrightarrow>
      mapPropTypeToControl item = Inr (None, None))
   \<and> (prop_type item \<notin> {''string'', ''number'', ''boolean'', ''function'', ''void''}
        \<and> prop_values item = Some vals
        \<and> q = filter (\<lambda>v. value_type v = ''string'' \<or> value_type v = ''number'') vals \<longrightarrow>
      mapPropTypeToControl item =
        Inr (Some (Control (if length q = 0 then ''object''
                            else if length q \<le> 4 then ''radio''
                            else ''select'')),
             Some (map value_value q)))"
  by (auto simp: mapPropTypeToControl_def mapItemValuesToOptions_def)

theorem prop_type_to_control_witness:
  "mapPropTypeToControl (enumProp (Some [strValue ''a'', strValue ''b'', strValue ''c'']))
     = Inr (Some (Control ''radio''), Some [LString ''a'', LString ''b'', LString ''c''])
   \<and> mapPropTypeToControl (enumProp (Some [strValue ''a'', strValue ''b'', strValue ''c'',
         strValue ''d'', strValue ''e'', strValue ''f'']))
     = Inr (Some (Control ''select''), Some [LString ''a'', LString ''b'', LString ''c'',
         LString ''d'', LString ''e'', LString ''f''])
   \<and> mapPropTypeToControl
        (enumProp (Some [\<lparr> value_type = ''boolean'', value_value = LString ''true'' \<rparr>]))
     = Inr (Some (Control ''object''), Some [])"
  using
    prop_type_to_control
      [of "enumProp (Some [strValue ''a'', strValue ''b'', strValue ''c''])"
        "[strValue ''a'', strValue ''b'', strValue ''c'']"
        "[strValue ''a'', strValue ''b'', strValue ''c'']"]
    prop_type_to_control
      [of "enumProp (Some [strValue ''a'', strValue ''b'', strValue ''c'',
             strValue ''d'', strValue ''e'', strValue ''f''])"
        "[strValue ''a'', strValue ''b'', strValue ''c'',
          strValue ''d'', strValue ''e'', strValue ''f'']"
        "[strValue ''a'', strValue ''b'', strValue ''c'',
          strValue ''d'', strValue ''e'', strValue ''f'']"]
    prop_type_to_control
      [of "enumProp (Some [\<lparr> value_type = ''boolean'', value_value = LString ''true'' \<rparr>])"
        "[\<lparr> value_type = ''boolean'', value_value = LString ''true'' \<rparr>]" "[]"]
  by (simp add: enumProp_def strValue_def)

lemma reduceE_propEntry_error:
  "reduceE (propEntry options) items acc = Inl e \<Longrightarrow> e = TypeError"
proof (induction items arbitrary: acc)
  case Nil
  then show ?case by simp
next
  case (Cons x xs)
  then show ?case
    by (auto simp: propEntry_def mapPropTypeToControl_def mapItemValuesToOptions_def
        split: sum.splits option.splits if_splits prod.splits)
qed

lemma reduceE_propEntry_fails:
  assumes "item \<in> set items" and "mapPropTypeToControl item = Inl TypeError"
  shows "reduceE (propEntry options) items acc = Inl TypeError"
  using assms(1)
proof (induction items arbitrary: acc)
  case Nil
  then show ?case by simp
next
  case (Cons x xs)
  show ?case
  proof (cases "propEntry options acc x")
    case (Inl e)
    then have "reduceE (propEntry options) (x # xs) acc = Inl e" by simp
    then show ?thesis using reduceE_propEntry_error by blast
  next
    case (Inr acc')
    then have "x \<noteq> item"
      using assms(2) by (auto simp: propEntry_def)
    with Cons.prems have "item \<in> set xs" by simp
    with Cons.IH Inr show ?thesis by simp
  qed
qed

text \<open>
  C10. A prop item whose declared type is none of \<^verbatim>\<open>string\<close>, \<^verbatim>\<open>number\<close>, \<^verbatim>\<open>boolean\<close>,
  \<^verbatim>\<open>function\<close>, \<^verbatim>\<open>void\<close> and whose \<^verbatim>\<open>values\<close> field is absent makes the control mapping
  fail with a runtime type error, and with it the prop mapper on every list that
  contains the item and the full extraction of every component whose props contain it.
\<close>

theorem enum_prop_without_values_raises:
  assumes "prop_type item \<notin> {''string'', ''number'', ''boolean'', ''function'', ''void''}"
    and "prop_values item = None"
  shows "mapPropTypeToControl item = Inl TypeError
    \<and> (item \<in> set items \<longrightarrow> mapPropsData (Some items) options = Inl TypeError)
    \<and> (item \<in> set items \<and> getMetaData tagName stencilDocJson = Inr (Defined metaData)
         \<and> props metaData = Some items \<longrightarrow>
       extractArgTypesFromElements tagName stencilDocJson options = Inl TypeError)"
proof -
  have 1: "mapPropTypeToControl item = Inl TypeError"
    using assms by (simp add: mapPropTypeToControl_def mapItemValuesToOptions_def)
  have 2: "mapPropsData (Some items) options = Inl TypeError" if "item \<in> set items"
    using reduceE_propEntry_fails [OF that 1] by (simp add: mapPropsData_def)
  from 1 2 show ?thesis
    by (simp add: extractArgTypesFromElements_def)
qed

theorem enum_prop_without_values_raises_witness:
  "mapPropTypeToControl (enumProp None) = Inl TypeError
   \<and> mapPropsData (Some [myCardProp, enumProp None]) \<lparr> dashCase = Some False \<rparr> = Inl TypeError
   \<and> extractArgTypesFromElements (JStr ''my-card'')
        (docOf [(component ''my-card'' None None)\<lparr> props := Some [myCardProp, enumProp None] \<rparr>])
        \<lparr> dashCase = Some False \<rparr>
      = Inl TypeError"
  using enum_prop_without_values_raises
    [of "enumProp None" "[myCardProp, enumProp None]" "\<lparr> dashCase = Some False \<rparr>"
      "JStr ''my-card''"
      "docOf [(component ''my-card'' None None)\<lparr> props := Some [myCardProp, enumProp None] \<rparr>]"
      "(component ''my-card'' None None)\<lparr> props := Some [myCardProp, enumProp None] \<rparr>"]
  by (simp add: enumProp_def component_def lookup_defs toUpperCase_examples)

section \<open>Descriptions and the registered document\<close>

text \<open>
  C8. For a component that resolves against the registered document, the description
  is its readme when the readme is present, whether or not docs are, and its docs when
  the readme is absent; when resolution gives an absent result (\<^verbatim>\<open>null\<close> or
  \<^verbatim>\<open>undefined\<close>) the description is that absent result. Present is read as the code
  tests it in \<^verbatim>\<open>readme || docs\<close>: an empty readme counts as absent.
\<close>

theorem description_readme_then_docs:
  assumes "getMetaData tagName (getStencilDocJson w) = r"
  shows "(r = Inr (Defined metaData) \<and> readme metaData = Some rd \<and> rd \<noteq> [] \<longrightarrow>
            extractComponentDescription tagName w = Inr (Defined rd))
       \<and> (r = Inr (Defined metaData) \<and> (readme metaData = None \<or> readme metaData = Some [])
            \<and> docs metaData = Some d \<longrightarrow>
            extractComponentDescription tagName w = Inr (Defined d))
       \<and> (r = Inr Null \<longrightarrow> extractComponentDescription tagName w = Inr Null)
       \<and> (r = Inr Undefined \<longrightarrow> extractComponentDescription tagName w = Inr Undefined)"
  using assms by (auto simp: extractComponentDescription_def)

theorem description_readme_then_docs_witness:
  "extractComponentDescription (JStr ''my-card'')
      (setStencilDocJson (docOf [component ''my-card'' (Some ''Readme'') (Some ''Docs'')])
         emptyWindow)
     = Inr (Defined ''Readme'')
   \<and> extractComponentDescription (JStr ''my-card'')
      (setStencilDocJson (docOf [component ''my-card'' None (Some ''Docs'')]) emptyWindow)
     = Inr (Defined ''Docs'')
   \<and> extractComponentDescription (JStr ''other'')
      (setStencilDocJson (docOf [component ''my-card'' None (Some ''Docs'')]) emptyWindow)
     = Inr Undefined
   \<and> extractComponentDescription (JStr ''my-card'') emptyWindow = Inr Null"
  using
    description_readme_then_docs [of "JStr ''my-card''"
      "setStencilDocJson (docOf [component ''my-card'' (Some ''Readme'') (Some ''Docs'')])
         emptyWindow"
      "Inr (Defined (component ''my-card'' (Some ''Readme'') (Some ''Docs'')))"
      "component ''my-card'' (Some ''Readme'') (Some ''Docs'')" "''Readme''" "''Docs''"]
    description_readme_then_docs [of "JStr ''my-card''"
      "setStencilDocJson (docOf [component ''my-card'' None (Some ''Docs'')]) emptyWindow"
      "Inr (Defined (component ''my-card'' None (Some ''Docs'')))"
      "component ''my-card'' None (Some ''Docs'')" "''Readme''" "''Docs''"]
    description_readme_then_docs [of "JStr ''other''"
      "setStencilDocJson (docOf [component ''my-card'' None (Some ''Docs'')]) emptyWindow"
      "Inr Undefined"]
    description_readme_then_docs [of "JStr ''my-card''" emptyWindow "Inr Null"]
  by (simp add: lookup_defs component_def toUpperCase_examples)

text \<open>
  C9. An extractor made by the factory reads the registered document when it is called:
  made after \<open>d1\<close> was registered and called after \<open>d2\<close> was registered, it extracts
  against \<open>d2\<close>. Its \<^verbatim>\<open>dashCase\<close> is the one given to the factory, and \<^verbatim>\<open>false\<close> when
  none was given.
\<close>

theorem factory_reads_current_document:
  "(let w1 = setStencilDocJson d1 w;
        extractor = extractArgTypesFactory options;
        w2 = setStencilDocJson d2 w1
    in extractor tagName w2)
   = extractArgTypesFromElements tagName d2
       \<lparr> dashCase = Some (case dashCase options of None \<Rightarrow> False | Some b \<Rightarrow> b) \<rparr>"
  by (simp add: extractArgTypesFactory_def getStencilDocJson_def setStencilDocJson_def
      withDefaults_def split: option.splits)

section \<open>Key casing and merging\<close>

text \<open>
  C6. An event item named \<^verbatim>\<open>myEvent\<close> is entered under the key \<^verbatim>\<open>event-my-event\<close> when
  \<^verbatim>\<open>dashCase\<close> is \<^verbatim>\<open>true\<close> and under \<^verbatim>\<open>eventMyEvent\<close> otherwise, that is when
  \<^verbatim>\<open>dashCase\<close> is \<^verbatim>\<open>false\<close> or not given; the factory's default is \<^verbatim>\<open>false\<close>. Alone in its
  list the item yields exactly that key, and in any list that contains it the key is
  among the keys of the result.
\<close>

theorem event_key_casing:
  assumes "event_event item = ''myEvent''"
  shows "(\<exists>d. arg_name d = Some ''myEvent'' \<and> arg_action d = Some ''myEvent''
            \<and> mapEventsData (Some [item]) options
                = Some [(if dashCase options = Some True then ''event-my-event''
                         else ''eventMyEvent'') \<mapsto> d])
       \<and> (item \<in> set items \<longrightarrow>
            (if dashCase options = Some True then ''event-my-event'' else ''eventMyEvent'')
              \<in> dom (spread (mapEventsData (Some items) options)))
       \<and> dashCase (withDefaults \<lparr> dashCase = None \<rparr>) = Some False"
proof -
  let ?key = "if dashCase options = Some True then ''event-my-event'' else ''eventMyEvent''"
  have key: "caseKey options ''event-myEvent'' = ?key"
    by (simp add: caseKey_def casing_examples)
  have entry: "eventEntry options acc item ?key \<noteq> None" for acc
    using key by (simp add: eventEntry_def assms)
  obtain d where d: "eventEntry options Map.empty item ?key = Some d"
    using entry by blast
  then have "arg_name d = Some ''myEvent''" and "arg_action d = Some ''myEvent''"
    using key by (auto simp: eventEntry_def assms)
  moreover have "mapEventsData (Some [item]) options = Some [?key \<mapsto> d]"
    using key d by (auto simp: mapEventsData_def eventEntry_def assms)
  ultimately have one: "\<exists>d. arg_name d = Some ''myEvent'' \<and> arg_action d = Some ''myEvent''
      \<and> mapEventsData (Some [item]) options = Some [?key \<mapsto> d]"
    by blast
  have "caseKey options (''event-'' @ event_event item)
        \<in> dom (spread (mapEventsData (Some items) options))"
    if "item \<in> set items"
    using that unfolding spread_def mapEventsData_def option.case dom_foldl_eventEntry
    by blast
  then have many: "item \<in> set items \<longrightarrow> ?key \<in> dom (spread (mapEventsData (Some items) options))"
    using key by (simp add: assms)
  have "dashCase (withDefaults \<lparr> dashCase = None \<rparr>) = Some False"
    by (simp add: withDefaults_def)
  with one many show ?thesis by blast
qed

theorem event_key_casing_witness:
  "(\<exists>d. mapEventsData (Some [myEvent]) \<lparr> dashCase = Some True \<rparr> = Some [''event-my-event'' \<mapsto> d])
   \<and> (\<exists>d. mapEventsData (Some [myEvent]) \<lparr> dashCase = Some False \<rparr> = Some [''eventMyEvent'' \<mapsto> d])
   \<and> (\<exists>d. mapEventsData (Some [myEvent]) (withDefaults \<lparr> dashCase = None \<rparr>)
          = Some [''eventMyEvent'' \<mapsto> d])"
  using event_key_casing [of myEvent "\<lparr> dashCase = Some True \<rparr>" "[]"]
    event_key_casing [of myEvent "\<lparr> dashCase = Some False \<rparr>" "[]"]
    event_key_casing [of myEvent "withDefaults \<lparr> dashCase = None \<rparr>" "[]"]
  by (simp add: myEvent_def withDefaults_def) blast

text \<open>
  C5. The full extraction of a resolved component merges the facets in the order props,
  events, methods, slots, styles, parts, a later facet overwriting the keys of an
  earlier one. Every key of the events facet keeps the event's descriptor in the merged
  result: it overwrites a prop of the same key, and no later facet has that key.
\<close>

theorem merge_order_event_wins:
  assumes "getMetaData tagName stencilDocJson = Inr (Defined metaData)"
    and "mapPropsData (props metaData) options = Inr p"
  shows "\<exists>m. extractArgTypesFromElements tagName stencilDocJson options = Inr (Defined m)
      \<and> m = spread p
             ++ spread (mapEventsData (events metaData) options)
             ++ spread (mapMethodsData (methods metaData) options)
             ++ spread (mapSlotsData (slots metaData) options)
             ++ spread (mapGenericData (styles metaData) ''css custom properties'' options)
             ++ spread (mapGenericData (parts metaData) ''css shadow parts'' options)
      \<and> (\<forall>k d. spread (mapEventsData (events metaData) options) k = Some d \<longrightarrow> m k = Some d)"
proof -
  have "(spread p
          ++ spread (mapEventsData (events metaData) options)
          ++ spread (mapMethodsData (methods metaData) options)
          ++ spread (mapSlotsData (slots metaData) options)
          ++ spread (mapGenericData (styles metaData) ''css custom properties'' options)
          ++ spread (mapGenericData (parts metaData) ''css shadow parts'' options)) k = Some d"
    if "spread (mapEventsData (events metaData) options) k = Some d" for k d
  proof -
    from that have "k \<in> dom (spread (mapEventsData (events metaData) options))"
      by blast
    from later_facets_miss_event_key [OF this] that show ?thesis
      by (simp add: map_add_def)
  qed
  with assms show ?thesis
    by (simp add: extractArgTypesFromElements_def)
qed

theorem merge_order_event_wins_witness:
  "\<exists>p m d.
      mapPropsData (props collidingComponent) \<lparr> dashCase = Some False \<rparr> = Inr p
    \<and> ''eventClick'' \<in> dom (spread p)
    \<and> extractArgTypesFromElements (JStr ''my-card'')
        (JObj [(''components'', JArr [collidingComponent])]) \<lparr> dashCase = Some False \<rparr>
      = Inr (Defined m)
    \<and> m ''eventClick'' = Some d
    \<and> category (arg_table d) = ''events''
    \<and> arg_action d = Some ''click''"
proof -
  have found: "getMetaData (JStr ''my-card'')
      (JObj [(''components'', JArr [collidingComponent])]) = Inr (Defined collidingComponent)"
    by (simp add: lookup_defs toUpperCase_examples collidingComponent_def)
  obtain p where p: "mapPropsData (props collidingComponent) \<lparr> dashCase = Some False \<rparr> = Inr p"
    and pk: "''eventClick'' \<in> dom (spread p)"
    by (simp add: collidingComponent_def collidingProp_def mapPropsData_def propEntry_def
        mapPropTypeToControl_def attrOrName_def caseKey_def casing_examples spread_def)
  obtain d where
    d: "spread (mapEventsData (events collidingComponent) \<lparr> dashCase = Some False \<rparr>)
          ''eventClick'' = Some d"
    and dc: "category (arg_table d) = ''events''" and da: "arg_action d = Some ''click''"
    by (simp add: collidingComponent_def collidingEvent_def mapEventsData_def eventEntry_def
        caseKey_def casing_examples spread_def)
  obtain m where m: "extractArgTypesFromElements (JStr ''my-card'')
        (JObj [(''components'', JArr [collidingComponent])]) \<lparr> dashCase = Some False \<rparr>
      = Inr (Defined m)"
    and wins: "\<forall>k d. spread (mapEventsData (events collidingComponent)
        \<lparr> dashCase = Some False \<rparr>) k = Some d \<longrightarrow> m k = Some d"
    using merge_order_event_wins [OF found p] by blast
  from wins d have "m ''eventClick'' = Some d" by blast
  with p pk m dc da show ?thesis by blast
qed

section \<open>End to end\<close>

text \<open>
  C1, as amended. After registering a document with the single component \<^verbatim>\<open>my-card\<close>
  that has the one prop \<^verbatim>\<open>title\<close> (attr \<^verbatim>\<open>title\<close>, type \<^verbatim>\<open>string\<close>, required, default
  \<^verbatim>\<open>Hi\<close>) and the one event \<^verbatim>\<open>cardClick\<close>, the default extractor returns for the tag
  \<^verbatim>\<open>my-card\<close> a mapping with exactly the two keys \<^verbatim>\<open>title\<close> and \<^verbatim>\<open>eventCardClick\<close>: the
  first with a text control, \<^verbatim>\<open>type.required\<close> true and the default value summary
  \<^verbatim>\<open>Hi\<close>, the second with no control, the action \<^verbatim>\<open>cardClick\<close> and the category
  \<^verbatim>\<open>events\<close>.
\<close>

theorem my_card_end_to_end:
  assumes "prop_name p = ''title''" and "prop_attr p = Some ''title''"
    and "prop_type p = ''string''" and "prop_required p = True"
    and "prop_default p = ''Hi''"
    and "event_event e = ''cardClick''"
    and "tag c = ''my-card''" and "props c = Some [p]" and "events c = Some [e]"
    and "methods c \<in> {None, Some []}" and "slots c \<in> {None, Some []}"
    and "styles c \<in> {None, Some []}" and "parts c \<in> {None, Some []}"
  shows "\<exists>m t ev.
      extractArgTypes (JStr ''my-card'')
          (setStencilDocJson (JObj [(''components'', JArr [c])]) w) = Inr (Defined m)
      \<and> dom m = {''title'', ''eventCardClick''}
      \<and> m ''title'' = Some t
      \<and> arg_control t = Some (Control ''text'')
      \<and> arg_type t = Required True
      \<and> defaultValue (arg_table t) = Some ''Hi''
      \<and> m ''eventCardClick'' = Some ev
      \<and> arg_control ev = None
      \<and> arg_action ev = Some ''cardClick''
      \<and> category (arg_table ev) = ''events''"
proof -
  have found: "getMetaData (JStr ''my-card'')
      (getStencilDocJson (setStencilDocJson (JObj [(''components'', JArr [c])]) w))
      = Inr (Defined c)"
    using assms(7) by (simp add: lookup_defs toUpperCase_examples)
  have opts: "withDefaults \<lparr> dashCase = None \<rparr> = \<lparr> dashCase = Some False \<rparr>"
    by (simp add: withDefaults_def)
  have pkey: "caseKey \<lparr> dashCase = Some False \<rparr> (attrOrName p) = ''title''"
    using assms(2) by (simp add: caseKey_def attrOrName_def casing_examples)
  have ekey: "caseKey \<lparr> dashCase = Some False \<rparr> (''event-'' @ event_event e) = ''eventCardClick''"
    using assms(6) casing_examples(2) by (simp add: caseKey_def)
  have ctl: "mapPropTypeToControl p = Inr (Some (Control ''text''), None)"
    using assms(3) by (simp add: mapPropTypeToControl_def)
  show ?thesis
    unfolding extractArgTypes_def extractArgTypesFactory_def extractArgTypesFromElements_def
      found opts
    using assms(4,5,6,8,9) pkey ekey ctl
      noItems_simps(1) [OF assms(10)] noItems_simps(2) [OF assms(11)]
      noItems_simps(3) [OF assms(12)] noItems_simps(3) [OF assms(13)]
    by (auto simp: mapPropsData_def propEntry_def mapEventsData_def eventEntry_def spread_def)
qed

theorem my_card_end_to_end_witness:
  "\<exists>m t ev.
      extractArgTypes (JStr ''my-card'')
          (setStencilDocJson (JObj [(''components'', JArr [myCard])]) emptyWindow)
        = Inr (Defined m)
      \<and> dom m = {''title'', ''eventCardClick''}
      \<and> m ''title'' = Some t
      \<and> arg_control t = Some (Control ''text'')
      \<and> arg_type t = Required True
      \<and> defaultValue (arg_table t) = Some ''Hi''
      \<and> m ''eventCardClick'' = Some ev
      \<and> arg_control ev = None
      \<and> arg_action ev = Some ''cardClick''
      \<and> category (arg_table ev) = ''events''"
  by (rule my_card_end_to_end [of myCardProp myCardEvent myCard emptyWindow])
    (simp_all add: myCard_def myCardProp_def myCardEvent_def)

text \<open>
  C1 as stated names the event's key \<^verbatim>\<open>cardClick\<close>. The result for such a document has
  no key \<^verbatim>\<open>cardClick\<close>: the event mapper prefixes the name with \<^verbatim>\<open>event-\<close> before
  casing it.
\<close>

theorem my_card_keys_counterexample:
  "extractArgTypes (JStr ''my-card'')
       (setStencilDocJson (JObj [(''components'', JArr [myCard])]) emptyWindow)
     = Inr (Defined myCardArgTypes)
   \<and> myCardArgTypes ''cardClick'' = None
   \<and> dom myCardArgTypes = {''title'', ''eventCardClick''}"
proof -
  have found: "getMetaData (JStr ''my-card'')
      (getStencilDocJson (setStencilDocJson (JObj [(''components'', JArr [myCard])]) emptyWindow))
      = Inr (Defined myCard)"
    by (simp add: lookup_defs toUpperCase_examples myCard_def)
  have "extractArgTypes (JStr ''my-card'')
       (setStencilDocJson (JObj [(''components'', JArr [myCard])]) emptyWindow)
     = Inr (Defined myCardArgTypes)"
    unfolding extractArgTypes_def extractArgTypesFactory_def extractArgTypesFromElements_def found
    by (simp add: myCard_def myCardProp_def myCardEvent_def myCardArgTypes_def withDefaults_def
        mapPropsData_def propEntry_def mapPropTypeToControl_def attrOrName_def caseKey_def
        casing_examples mapEventsData_def eventEntry_def mapMethodsData_def mapSlotsData_def
        mapGenericData_def spread_def)
  moreover have "myCardArgTypes ''cardClick'' = None"
    by (simp add: myCardArgTypes_def)
  moreover have "dom myCardArgTypes = {''title'', ''eventCardClick''}"
    by (auto simp: myCardArgTypes_def)
  ultimately show ?thesis by simp
qed

end
